theory Spec2Isabelle
  imports Main
begin

section \<open>Python values used by the scheduler service\<close>

text \<open>
  The reminder scheduling engine of \<^verbatim>\<open>scheduler_service.py\<close>, with the store operations
  of \<^verbatim>\<open>database.py\<close> and the toggle handler of \<^verbatim>\<open>handlers.py\<close> it depends on.
  Python integers are \<open>int\<close>, strings are \<open>string\<close> (ASCII text), and every exception
  the code can raise on the modelled paths is a value of \<open>py_error\<close>.
\<close>

datatype py_error = ValueError | OverflowError | JobLookupError

subsection \<open>Strings: \<^verbatim>\<open>strip\<close>, \<^verbatim>\<open>split\<close>, \<^verbatim>\<open>join\<close>, \<^verbatim>\<open>lower\<close>, \<^verbatim>\<open>in\<close>\<close>

definition is_space :: "char \<Rightarrow> bool" where
  "is_space c = (c \<in> set [CHR '' '', CHR 0x09, CHR 0x0A, CHR 0x0B, CHR 0x0C, CHR 0x0D,
                            CHR 0x1C, CHR 0x1D, CHR 0x1E, CHR 0x1F])"

definition strip :: "string \<Rightarrow> string" where
  "strip s = rev (dropWhile is_space (rev (dropWhile is_space s)))"

text \<open>\<^verbatim>\<open>s.split(sep)\<close> for a one-character separator: \<^verbatim>\<open>"".split(",") == [""]\<close>.\<close>

fun split_str :: "char \<Rightarrow> string \<Rightarrow> string list" where
  "split_str sep [] = [[]]"
| "split_str sep (c # cs) =
     (if c = sep then [] # split_str sep cs
      else (case split_str sep cs of
              [] \<Rightarrow> [[c]]
            | p # ps \<Rightarrow> (c # p) # ps))"

fun join_str :: "string \<Rightarrow> string list \<Rightarrow> string" where
  "join_str sep [] = []"
| "join_str sep [x] = x"
| "join_str sep (x # y # ys) = x @ sep @ join_str sep (y # ys)"

definition lower_char :: "char \<Rightarrow> char" where
  "lower_char c =
     (case map_of (zip ''ABCDEFGHIJKLMNOPQRSTUVWXYZ'' ''abcdefghijklmnopqrstuvwxyz'') c of
        None \<Rightarrow> c
      | Some l \<Rightarrow> l)"

definition lower :: "string \<Rightarrow> string" where
  "lower s = map lower_char s"

fun startswith :: "string \<Rightarrow> string \<Rightarrow> bool" where
  "startswith s [] = True"
| "startswith [] (p # ps) = False"
| "startswith (c # cs) (p # ps) = (c = p \<and> startswith cs ps)"

text \<open>\<^verbatim>\<open>sub in s\<close> on strings: \<open>sub\<close> occurs in \<open>s\<close> as a contiguous run.\<close>

fun contains :: "string \<Rightarrow> string \<Rightarrow> bool" where
  "contains [] sub = (sub = [])"
| "contains (c # cs) sub = (startswith (c # cs) sub \<or> contains cs sub)"

subsection \<open>\<^verbatim>\<open>int(s)\<close> and \<^verbatim>\<open>str(n)\<close>\<close>

definition digit_val :: "char \<Rightarrow> nat option" where
  "digit_val c =
     map_of [(CHR ''0'', 0), (CHR ''1'', 1), (CHR ''2'', 2), (CHR ''3'', 3), (CHR ''4'', 4),
             (CHR ''5'', 5), (CHR ''6'', 6), (CHR ''7'', 7), (CHR ''8'', 8), (CHR ''9'', 9)] c"

text \<open>
  The digits of a decimal literal after the first one: Python allows one underscore
  between two digits.
\<close>

fun more_digits :: "string \<Rightarrow> nat \<Rightarrow> nat option" where
  "more_digits [] acc = Some acc"
| "more_digits [c] acc =
     (case digit_val c of None \<Rightarrow> None | Some d \<Rightarrow> Some (10 * acc + d))"
| "more_digits (c # c' # cs) acc =
     (case digit_val c of
        Some d \<Rightarrow> more_digits (c' # cs) (10 * acc + d)
      | None \<Rightarrow>
          (if c = CHR ''_'' then
             (case digit_val c' of
                None \<Rightarrow> None
              | Some d \<Rightarrow> more_digits cs (10 * acc + d))
           else None))"

definition decimal :: "string \<Rightarrow> nat option" where
  "decimal s =
     (case s of
        [] \<Rightarrow> None
      | c # cs \<Rightarrow> (case digit_val c of None \<Rightarrow> None | Some d \<Rightarrow> more_digits cs d))"

text \<open>
  \<^verbatim>\<open>int(s)\<close>: surrounding whitespace is dropped, one sign is allowed, anything else
  raises \<^verbatim>\<open>ValueError\<close>. The whitespace \<^verbatim>\<open>int\<close> drops is the blank, the tab, the line
  feed, the vertical tab, the form feed and the carriage return; unlike \<^verbatim>\<open>str.strip\<close>
  it does not drop the separators 0x1C to 0x1F.
\<close>

definition is_int_space :: "char \<Rightarrow> bool" where
  "is_int_space c = (c \<in> set [CHR '' '', CHR 0x09, CHR 0x0A, CHR 0x0B, CHR 0x0C, CHR 0x0D])"

definition py_int :: "string \<Rightarrow> py_error + int" where
  "py_int s =
     (case rev (dropWhile is_int_space (rev (dropWhile is_int_space s))) of
        [] \<Rightarrow> Inl ValueError
      | c # cs \<Rightarrow>
          (if c = CHR ''-'' then
             (case decimal cs of None \<Rightarrow> Inl ValueError | Some n \<Rightarrow> Inr (- int n))
           else if c = CHR ''+'' then
             (case decimal cs of None \<Rightarrow> Inl ValueError | Some n \<Rightarrow> Inr (int n))
           else
             (case decimal (c # cs) of None \<Rightarrow> Inl ValueError | Some n \<Rightarrow> Inr (int n))))"

definition digit_char :: "nat \<Rightarrow> char" where
  "digit_char n = ''0123456789'' ! n"

fun nat_digits :: "nat \<Rightarrow> string" where
  "nat_digits n =
     (if n < 10 then [digit_char n] else nat_digits (n div 10) @ [digit_char (n mod 10)])"

declare nat_digits.simps [simp del]

definition py_str :: "int \<Rightarrow> string" where
  "py_str i = (if i < 0 then CHR ''-'' # nat_digits (nat (- i)) else nat_digits (nat i))"

subsection \<open>Naive date-times\<close>

text \<open>
  A naive \<^verbatim>\<open>datetime\<close> with zero seconds is the number of minutes since
  0001-01-01 00:00 in the proleptic Gregorian calendar; \<^verbatim>\<open>datetime.min\<close> is minute 0
  and the last representable day is day 3652059 (9999-12-31). Subtracting a
  \<^verbatim>\<open>timedelta\<close> is subtraction of minutes, with \<^verbatim>\<open>OverflowError\<close> outside that range.
\<close>

definition is_leap :: "int \<Rightarrow> bool" where
  "is_leap y = (y mod 4 = 0 \<and> (0 < y mod 100 \<or> y mod 400 = 0))"

definition days_in_month :: "int \<Rightarrow> int \<Rightarrow> int" where
  "days_in_month y m =
     (if m = 2 then (if is_leap y then 29 else 28)
      else if m = 4 \<or> m = 6 \<or> m = 9 \<or> m = 11 then 30
      else 31)"

definition days_before_year :: "int \<Rightarrow> int" where
  "days_before_year y = (y - 1) * 365 + (y - 1) div 4 - (y - 1) div 100 + (y - 1) div 400"

definition days_before_month :: "int \<Rightarrow> int \<Rightarrow> int" where
  "days_before_month y m =
     [0, 31, 59, 90, 120, 151, 181, 212, 243, 273, 304, 334] ! nat (m - 1)
     + (if m > 2 \<and> is_leap y then 1 else 0)"

definition ymd2ord :: "int \<Rightarrow> int \<Rightarrow> int \<Rightarrow> int" where
  "ymd2ord y m d = days_before_year y + days_before_month y m + d"

definition MAXORDINAL :: int where
  "MAXORDINAL = 3652059"

text \<open>\<^verbatim>\<open>datetime(y, m, d, hour, minute)\<close>: \<^verbatim>\<open>ValueError\<close> when a field is out of range.\<close>

definition datetime :: "int \<Rightarrow> int \<Rightarrow> int \<Rightarrow> int \<Rightarrow> int \<Rightarrow> py_error + int" where
  "datetime y m d hour minute =
     (if 1 \<le> y \<and> y \<le> 9999 \<and> 1 \<le> m \<and> m \<le> 12 \<and> 1 \<le> d \<and> d \<le> days_in_month y m
         \<and> 0 \<le> hour \<and> hour \<le> 23 \<and> 0 \<le> minute \<and> minute \<le> 59
      then Inr ((ymd2ord y m d - 1) * 1440 + hour * 60 + minute)
      else Inl ValueError)"

text \<open>\<^verbatim>\<open>dt - timedelta(minutes=n)\<close>.\<close>

definition minus_minutes :: "int \<Rightarrow> int \<Rightarrow> py_error + int" where
  "minus_minutes dt n =
     (if 0 \<le> dt - n \<and> dt - n < MAXORDINAL * 1440 then Inr (dt - n) else Inl OverflowError)"

definition dt_hour :: "int \<Rightarrow> int" where
  "dt_hour dt = (dt mod 1440) div 60"

definition dt_minute :: "int \<Rightarrow> int" where
  "dt_minute dt = dt mod 60"

text \<open>\<^verbatim>\<open>dt.date()\<close> as a day number; the difference of two dates is a number of days.\<close>

definition dt_date :: "int \<Rightarrow> int" where
  "dt_date dt = dt div 1440"

section \<open>The trigger compiler\<close>

definition job_id :: "int \<Rightarrow> string" where
  "job_id reminder_id = ''rem_'' @ py_str reminder_id"

text \<open>
  \<^verbatim>\<open>_shift_days\<close>: the parts that do not parse as integers are dropped; when no part
  is left the string is returned unchanged.
\<close>

definition shift_days :: "string \<Rightarrow> int \<Rightarrow> string" where
  "shift_days days_str shift =
     (if days_str = ''all'' \<or> shift = 0 then days_str
      else
        (let parts = filter (\<lambda>p. p \<noteq> []) (map strip (split_str CHR '','' days_str));
             days = concat (map (\<lambda>p. case py_int p of Inl e \<Rightarrow> [] | Inr d \<Rightarrow> [d]) parts);
             shifted = map (\<lambda>d. py_str ((d + shift) mod 7)) days
         in if shifted \<noteq> [] then join_str '','' shifted else days_str))"

text \<open>
  \<^verbatim>\<open>_convert_bot_time_to_server\<close>: \<^verbatim>\<open>hour, minute = map(int, time_str.split(":"))\<close>
  needs exactly two parts, both integers.
\<close>

definition convert_bot_time_to_server :: "string \<Rightarrow> int \<Rightarrow> py_error + (int \<times> int \<times> int)" where
  "convert_bot_time_to_server time_str offset_minutes =
     (case map py_int (split_str CHR '':'' time_str) of
        [Inr hour, Inr minute] \<Rightarrow>
          (case datetime 2000 1 3 hour minute of
             Inl e \<Rightarrow> Inl e
           | Inr base \<Rightarrow>
               (case minus_minutes base offset_minutes of
                  Inl e \<Rightarrow> Inl e
                | Inr server_dt \<Rightarrow>
                    Inr (dt_hour server_dt, dt_minute server_dt,
                         dt_date server_dt - dt_date base)))
      | _ \<Rightarrow> Inl ValueError)"


subsection \<open>\<^verbatim>\<open>datetime.strptime(s, "%Y-%m-%d %H:%M")\<close>\<close>

text \<open>
  The library turns the format into a regular expression, one group per directive, and
  takes the first match in the order the alternatives are tried; text left over after
  the match is an error. Each group below lists its matches at the head of the input in
  that order, with the rest of the input.
\<close>

definition two_digits :: "(nat \<Rightarrow> nat \<Rightarrow> bool) \<Rightarrow> string \<Rightarrow> (int \<times> string) list" where
  "two_digits ok s =
     (case s of
        c # c' # cs \<Rightarrow>
          (case (digit_val c, digit_val c') of
             (Some a, Some b) \<Rightarrow> (if ok a b then [(int (10 * a + b), cs)] else [])
           | _ \<Rightarrow> [])
      | _ \<Rightarrow> [])"

definition one_digit :: "(nat \<Rightarrow> bool) \<Rightarrow> string \<Rightarrow> (int \<times> string) list" where
  "one_digit ok s =
     (case s of
        c # cs \<Rightarrow> (case digit_val c of Some a \<Rightarrow> (if ok a then [(int a, cs)] else []) | None \<Rightarrow> [])
      | [] \<Rightarrow> [])"

definition lit :: "char \<Rightarrow> string \<Rightarrow> string list" where
  "lit c s = (case s of [] \<Rightarrow> [] | x # xs \<Rightarrow> (if x = c then [xs] else []))"

text \<open>\<^verbatim>\<open>%Y\<close> is \<^verbatim>\<open>\d\d\d\d\<close>.\<close>

definition rx_Y :: "string \<Rightarrow> (int \<times> string) list" where
  "rx_Y s =
     (case s of
        a # b # c # d # rest \<Rightarrow>
          (case (digit_val a, digit_val b, digit_val c, digit_val d) of
             (Some a', Some b', Some c', Some d') \<Rightarrow>
               [(int (1000 * a' + 100 * b' + 10 * c' + d'), rest)]
           | _ \<Rightarrow> [])
      | _ \<Rightarrow> [])"

text \<open>\<^verbatim>\<open>%m\<close> is \<^verbatim>\<open>1[0-2]|0[1-9]|[1-9]\<close>.\<close>

definition rx_m :: "string \<Rightarrow> (int \<times> string) list" where
  "rx_m s =
     two_digits (\<lambda>a b. (a = 1 \<and> b \<le> 2) \<or> (a = 0 \<and> 1 \<le> b)) s @ one_digit (\<lambda>a. 1 \<le> a) s"

text \<open>\<^verbatim>\<open>%d\<close> is \<^verbatim>\<open>3[0-1]|[1-2]\d|0[1-9]|[1-9]| [1-9]\<close>.\<close>

definition rx_d :: "string \<Rightarrow> (int \<times> string) list" where
  "rx_d s =
     two_digits (\<lambda>a b. (a = 3 \<and> b \<le> 1) \<or> a = 1 \<or> a = 2 \<or> (a = 0 \<and> 1 \<le> b)) s
     @ one_digit (\<lambda>a. 1 \<le> a) s
     @ concat (map (one_digit (\<lambda>a. 1 \<le> a)) (lit CHR '' '' s))"

text \<open>\<^verbatim>\<open>%H\<close> is \<^verbatim>\<open>2[0-3]|[0-1]\d|\d\<close>.\<close>

definition rx_H :: "string \<Rightarrow> (int \<times> string) list" where
  "rx_H s = two_digits (\<lambda>a b. (a = 2 \<and> b \<le> 3) \<or> a \<le> 1) s @ one_digit (\<lambda>a. True) s"

text \<open>\<^verbatim>\<open>%M\<close> is \<^verbatim>\<open>[0-5]\d|\d\<close>.\<close>

definition rx_M :: "string \<Rightarrow> (int \<times> string) list" where
  "rx_M s = two_digits (\<lambda>a b. a \<le> 5) s @ one_digit (\<lambda>a. True) s"

text \<open>The blank of the format is \<^verbatim>\<open>\s+\<close>: greedy, so the longest run is tried first.\<close>

fun rx_ws :: "string \<Rightarrow> string list" where
  "rx_ws [] = []"
| "rx_ws (c # cs) = (if is_space c then rx_ws cs @ [cs] else [])"

definition strptime :: "string \<Rightarrow> py_error + int" where
  "strptime s =
     (case [(y, m, d, H, M, s9).
              (y, s1) \<leftarrow> rx_Y s, s2 \<leftarrow> lit CHR ''-'' s1,
              (m, s3) \<leftarrow> rx_m s2, s4 \<leftarrow> lit CHR ''-'' s3,
              (d, s5) \<leftarrow> rx_d s4, s6 \<leftarrow> rx_ws s5,
              (H, s7) \<leftarrow> rx_H s6, s8 \<leftarrow> lit CHR '':'' s7,
              (M, s9) \<leftarrow> rx_M s8] of
        [] \<Rightarrow> Inl ValueError
      | (y, m, d, H, M, rest) # _ \<Rightarrow>
          (if rest \<noteq> [] then Inl ValueError else datetime y m d H M))"

section \<open>The store\<close>

text \<open>
  A row of the \<^verbatim>\<open>reminders\<close> table. \<^verbatim>\<open>get_reminders\<close> adds the topic name to each
  row; the scheduler never reads it, so it is left out.
\<close>

record reminder =
  r_id :: int
  r_thread_id :: int
  r_text :: string
  r_time :: string
  r_days :: string
  r_active :: int
  r_needs_confirm :: int
  r_specific_date :: "string option"
  r_is_recurring :: int

record db =
  reminders :: "reminder list"
  settings :: "string \<Rightarrow> string option"

definition get_reminders :: "db \<Rightarrow> reminder list" where
  "get_reminders d = reminders d"

definition delete_reminder :: "int \<Rightarrow> db \<Rightarrow> db" where
  "delete_reminder reminder_id d =
     d\<lparr>reminders := filter (\<lambda>r. r_id r \<noteq> reminder_id) (reminders d)\<rparr>"

text \<open>\<^verbatim>\<open>toggle_reminder_status\<close> returns the new value, or \<^verbatim>\<open>None\<close> when there is no row.\<close>

definition toggle_reminder_status :: "int \<Rightarrow> db \<Rightarrow> int option \<times> db" where
  "toggle_reminder_status reminder_id d =
     (case filter (\<lambda>r. r_id r = reminder_id) (reminders d) of
        [] \<Rightarrow> (None, d)
      | row # _ \<Rightarrow>
          (let new_val = (if r_active row = 1 then 0 else 1)
           in (Some new_val,
               d\<lparr>reminders :=
                    map (\<lambda>r. if r_id r = reminder_id then r\<lparr>r_active := new_val\<rparr> else r)
                        (reminders d)\<rparr>)))"

definition get_setting :: "db \<Rightarrow> string \<Rightarrow> string option \<Rightarrow> string option" where
  "get_setting d key dflt = (case settings d key of None \<Rightarrow> dflt | Some v \<Rightarrow> Some v)"

text \<open>\<^verbatim>\<open>_get_time_offset_minutes\<close>: a value that is not an integer counts as 0.\<close>

definition get_time_offset_minutes :: "db \<Rightarrow> int" where
  "get_time_offset_minutes d =
     (case get_setting d ''time_offset_minutes'' (Some ''0'') of
        None \<Rightarrow> 0
      | Some raw \<Rightarrow> (case py_int raw of Inl e \<Rightarrow> 0 | Inr n \<Rightarrow> n))"

section \<open>The job registry\<close>

record job_args =
  a_chat_id :: int
  a_thread_id :: int
  a_text :: string
  a_rid :: int
  a_needs_confirm :: bool
  a_is_recurring :: bool

datatype job_func = SendReminderJob job_args | RunMaintenanceJob

text \<open>
  A cron trigger with its \<^verbatim>\<open>day_of_week\<close> argument (absent: every day), hour and
  minute; a date trigger with its instant, in microseconds of universal time.
\<close>

datatype trigger = CronTrigger "string option" int int | DateTrigger int

record job =
  jid :: string
  jtrigger :: trigger
  jfunc :: job_func

record scheduler =
  jobs :: "job list"
  running :: bool

text \<open>
  Modelled from the spec: the scheduler object is an \<^verbatim>\<open>AsyncIOScheduler\<close> of the
  APScheduler library, which is not part of the repository. Its job store is a list of
  jobs; \<^verbatim>\<open>add_job(..., replace_existing=True)\<close>, the only way the code adds a job,
  replaces the job that has the same id and appends otherwise; \<^verbatim>\<open>remove_job\<close> raises
  \<^verbatim>\<open>JobLookupError\<close> when no job has the id; \<^verbatim>\<open>remove_all_jobs\<close> empties the store.
\<close>

definition add_job :: "job \<Rightarrow> scheduler \<Rightarrow> scheduler" where
  "add_job j s =
     (if jid j \<in> set (map jid (jobs s))
      then s\<lparr>jobs := map (\<lambda>k. if jid k = jid j then j else k) (jobs s)\<rparr>
      else s\<lparr>jobs := jobs s @ [j]\<rparr>)"

definition remove_job :: "string \<Rightarrow> scheduler \<Rightarrow> py_error + scheduler" where
  "remove_job i s =
     (if i \<in> set (map jid (jobs s))
      then Inr (s\<lparr>jobs := filter (\<lambda>k. jid k \<noteq> i) (jobs s)\<rparr>)
      else Inl JobLookupError)"

definition remove_all_jobs :: "scheduler \<Rightarrow> scheduler" where
  "remove_all_jobs s = s\<lparr>jobs := []\<rparr>"

definition get_job :: "scheduler \<Rightarrow> string \<Rightarrow> job option" where
  "get_job s i = find (\<lambda>k. jid k = i) (jobs s)"

text \<open>
  What the code takes from its environment: the scheduler's time zone, as the offset
  from universal time (in minutes) that \<^verbatim>\<open>tz.localize\<close> gives a naive local time, and
  the day-of-week expressions the cron trigger accepts (any other raises
  \<^verbatim>\<open>ValueError\<close> when the trigger is built).
\<close>

record env =
  tz_utcoffset :: "int \<Rightarrow> int"
  cron_accepts :: "string \<Rightarrow> bool"

definition localize :: "env \<Rightarrow> int \<Rightarrow> int" where
  "localize e naive = (naive - tz_utcoffset e naive) * 60000000"

section \<open>Arming a reminder\<close>

text \<open>
  \<^verbatim>\<open>if specific_date:\<close> holds for a string that is neither \<^verbatim>\<open>None\<close> nor empty.
\<close>

definition truthy :: "string option \<Rightarrow> string option" where
  "truthy x = (case x of None \<Rightarrow> None | Some v \<Rightarrow> (if v = [] then None else Some v))"

text \<open>
  \<^verbatim>\<open>add_reminder_to_scheduler\<close> up to its call of \<^verbatim>\<open>scheduler.add_job\<close>: the job that
  call is given. \<open>now\<close> is what \<^verbatim>\<open>datetime.now(tz)\<close> returns in this call, in
  microseconds of universal time. An exception leaves the function (\<open>Inl\<close>); for a date
  in the past the function logs a warning and returns without a job (\<open>None\<close>).
\<close>

definition compile_job ::
  "env \<Rightarrow> int \<Rightarrow> db \<Rightarrow> int \<Rightarrow> int \<Rightarrow> string \<Rightarrow> int \<Rightarrow> string \<Rightarrow> string \<Rightarrow> bool
     \<Rightarrow> string option \<Rightarrow> bool \<Rightarrow> py_error + job option" where
  "compile_job e now d chat_id thread_id text rid time_str days_str needs_confirm
       specific_date is_recurring =
     (let offset_minutes = get_time_offset_minutes d in
      case truthy specific_date of
        Some date_str \<Rightarrow>
          (case strptime (date_str @ '' '' @ time_str) of
             Inl err \<Rightarrow> Inl err
           | Inr bot_fire_time \<Rightarrow>
               (case minus_minutes bot_fire_time offset_minutes of
                  Inl err \<Rightarrow> Inl err
                | Inr naive_fire_time \<Rightarrow>
                    (let fire_time = localize e naive_fire_time in
                     if fire_time < now then Inr None
                     else Inr (Some
                       \<lparr>jid = job_id rid, jtrigger = DateTrigger fire_time,
                        jfunc = SendReminderJob
                          \<lparr>a_chat_id = chat_id, a_thread_id = thread_id, a_text = text,
                           a_rid = rid, a_needs_confirm = needs_confirm,
                           a_is_recurring = False\<rparr>\<rparr>))))
      | None \<Rightarrow>
          (case convert_bot_time_to_server time_str offset_minutes of
             Inl err \<Rightarrow> Inl err
           | Inr (hour, minute, shift) \<Rightarrow>
               (let shifted_days_str = shift_days days_str shift;
                    day_of_week =
                      (if shifted_days_str \<noteq> ''all'' then Some shifted_days_str else None)
                in if (case day_of_week of None \<Rightarrow> False | Some x \<Rightarrow> \<not> cron_accepts e x)
                   then Inl ValueError
                   else Inr (Some
                     \<lparr>jid = job_id rid, jtrigger = CronTrigger day_of_week hour minute,
                      jfunc = SendReminderJob
                        \<lparr>a_chat_id = chat_id, a_thread_id = thread_id, a_text = text,
                         a_rid = rid, a_needs_confirm = needs_confirm,
                         a_is_recurring = is_recurring\<rparr>\<rparr>))))"

text \<open>
  \<^verbatim>\<open>add_reminder_to_scheduler\<close>: both branches add the job under \<^verbatim>\<open>_job_id(rid)\<close>
  with \<^verbatim>\<open>replace_existing=True\<close>; the early return leaves the scheduler as it was.
\<close>

definition add_reminder_to_scheduler ::
  "env \<Rightarrow> int \<Rightarrow> db \<Rightarrow> int \<Rightarrow> int \<Rightarrow> string \<Rightarrow> int \<Rightarrow> string \<Rightarrow> string \<Rightarrow> bool
     \<Rightarrow> string option \<Rightarrow> bool \<Rightarrow> scheduler \<Rightarrow> py_error + scheduler" where
  "add_reminder_to_scheduler e now d chat_id thread_id text rid time_str days_str needs_confirm
       specific_date is_recurring s =
     (case compile_job e now d chat_id thread_id text rid time_str days_str needs_confirm
             specific_date is_recurring of
        Inl err \<Rightarrow> Inl err
      | Inr None \<Rightarrow> Inr s
      | Inr (Some j) \<Rightarrow> Inr (add_job j s))"

section \<open>Delivery\<close>

text \<open>
  What \<^verbatim>\<open>bot.send_message\<close> does: it returns, or raises \<^verbatim>\<open>TelegramForbiddenError\<close>,
  \<^verbatim>\<open>TelegramBadRequest\<close> (with the text of the exception) or another exception.
\<close>

datatype send_result = Sent | Forbidden | BadRequest string | OtherError

text \<open>\<^verbatim>\<open>try: scheduler.remove_job(...) except Exception: pass\<close>.\<close>

definition try_remove_job :: "string \<Rightarrow> scheduler \<Rightarrow> scheduler" where
  "try_remove_job i s = (case remove_job i s of Inl err \<Rightarrow> s | Inr s' \<Rightarrow> s')"

text \<open>
  \<^verbatim>\<open>send_reminder_job\<close> on the store and the scheduler, for each result of the send.
  The messages it logs are not part of the state.
\<close>

definition send_reminder_job :: "send_result \<Rightarrow> job_args \<Rightarrow> db \<times> scheduler \<Rightarrow> db \<times> scheduler" where
  "send_reminder_job res a st =
     (case st of (d, s) \<Rightarrow>
        (case res of
           Sent \<Rightarrow>
             (if \<not> a_is_recurring a
              then (delete_reminder (a_rid a) d, try_remove_job (job_id (a_rid a)) s)
              else (d, s))
         | Forbidden \<Rightarrow> (d, s)
         | BadRequest msg \<Rightarrow>
             (let err_msg = lower msg in
              if contains err_msg ''thread not found'' \<or> contains err_msg ''chat not found''
              then (snd (toggle_reminder_status (a_rid a) d), try_remove_job (job_id (a_rid a)) s)
              else (d, s))
         | OtherError \<Rightarrow> (d, s)))"

text \<open>
  A job of the registry fires. A date trigger has no later run time, so the scheduler
  drops the job from its store as it submits the run; a cron job stays. The callback
  then runs with the arguments bound when the job was armed.
\<close>

definition drop_if_done :: "job \<Rightarrow> scheduler \<Rightarrow> scheduler" where
  "drop_if_done j s =
     (case jtrigger j of
        DateTrigger run_date \<Rightarrow> try_remove_job (jid j) s
      | CronTrigger day_of_week hour minute \<Rightarrow> s)"

definition fire :: "send_result \<Rightarrow> job \<Rightarrow> db \<times> scheduler \<Rightarrow> db \<times> scheduler" where
  "fire res j st =
     (case st of (d, s) \<Rightarrow>
        (case jfunc j of
           SendReminderJob a \<Rightarrow> send_reminder_job res a (d, drop_if_done j s)
         | RunMaintenanceJob \<Rightarrow> (d, drop_if_done j s)))"

section \<open>Loading and reloading\<close>

text \<open>
  The loop of \<^verbatim>\<open>load_reminders\<close> runs inside one \<^verbatim>\<open>try\<close>: the first exception ends
  it, and the jobs armed so far stay. \<open>clock rid\<close> is the time read while reminder
  \<open>rid\<close> is armed; \<open>row_job\<close> is the job the call for a row compiles.
\<close>

definition row_job :: "env \<Rightarrow> (int \<Rightarrow> int) \<Rightarrow> db \<Rightarrow> int \<Rightarrow> reminder \<Rightarrow> py_error + job option" where
  "row_job e clock d cid r =
     compile_job e (clock (r_id r)) d cid (r_thread_id r) (r_text r) (r_id r) (r_time r)
       (r_days r) (r_needs_confirm r \<noteq> 0) (r_specific_date r) (r_is_recurring r \<noteq> 0)"

fun load_loop :: "env \<Rightarrow> (int \<Rightarrow> int) \<Rightarrow> db \<Rightarrow> string \<Rightarrow> reminder list \<Rightarrow> scheduler \<Rightarrow> scheduler" where
  "load_loop e clock d chat_id [] s = s"
| "load_loop e clock d chat_id (r # rs) s =
     (if r_active r \<noteq> 0 then
        (case py_int chat_id of
           Inl err \<Rightarrow> s
         | Inr cid \<Rightarrow>
             (case add_reminder_to_scheduler e (clock (r_id r)) d cid (r_thread_id r) (r_text r)
                     (r_id r) (r_time r) (r_days r) (r_needs_confirm r \<noteq> 0)
                     (r_specific_date r) (r_is_recurring r \<noteq> 0) s of
                Inl err \<Rightarrow> s
              | Inr s' \<Rightarrow> load_loop e clock d chat_id rs s'))
      else load_loop e clock d chat_id rs s)"

text \<open>The rows a load arms: active, and compiled to a job rather than skipped.\<close>

definition armed_rows :: "env \<Rightarrow> (int \<Rightarrow> int) \<Rightarrow> db \<Rightarrow> int \<Rightarrow> reminder list \<Rightarrow> int set" where
  "armed_rows e clock d cid rs =
     {r_id r | r. r \<in> set rs \<and> r_active r \<noteq> 0 \<and> row_job e clock d cid r \<noteq> Inr None}"

definition load_reminders :: "env \<Rightarrow> (int \<Rightarrow> int) \<Rightarrow> db \<Rightarrow> scheduler \<Rightarrow> scheduler" where
  "load_reminders e clock d s =
     (case get_setting d ''group_chat_id'' None of
        None \<Rightarrow> s
      | Some chat_id \<Rightarrow>
          (if chat_id = [] then s else load_loop e clock d chat_id (get_reminders d) s))"

definition start_maintenance_jobs :: "scheduler \<Rightarrow> scheduler" where
  "start_maintenance_jobs s =
     add_job \<lparr>jid = ''weekly_maintenance'', jtrigger = CronTrigger (Some ''sun'') 3 0,
              jfunc = RunMaintenanceJob\<rparr> s"

definition reload_scheduler :: "env \<Rightarrow> (int \<Rightarrow> int) \<Rightarrow> db \<Rightarrow> scheduler \<Rightarrow> scheduler" where
  "reload_scheduler e clock d s =
     (let s1 = remove_all_jobs s;
          s2 = start_maintenance_jobs s1;
          s3 = load_reminders e clock d s2
      in if \<not> running s3 then s3\<lparr>running := True\<rparr> else s3)"

section \<open>The toggle handler\<close>

text \<open>
  \<^verbatim>\<open>tog_rem_h\<close> toggles the row and shows the list again; \<^verbatim>\<open>list_reminders_h\<close> only
  reads the store.
\<close>

definition tog_rem_h :: "int \<Rightarrow> db \<times> scheduler \<Rightarrow> db \<times> scheduler" where
  "tog_rem_h rid st = (case st of (d, s) \<Rightarrow> (snd (toggle_reminder_status rid d), s))"

text \<open>\<^verbatim>\<open>c_del\<close>, the delete handler beside it, removes the row and the job.\<close>

definition c_del :: "int \<Rightarrow> db \<times> scheduler \<Rightarrow> db \<times> scheduler" where
  "c_del rid st = (case st of (d, s) \<Rightarrow> (delete_reminder rid d, try_remove_job (job_id rid) s))"

section \<open>Example data\<close>

text \<open>
  A time zone five hours ahead of universal time, a cron trigger that accepts lists of
  the weekday digits, and a store with a weekly reminder, a disabled one, a one-shot
  reminder of the year 2000 and one of the year 2999. The clock stands in the year 2025.
\<close>

definition utc_plus_5 :: "int \<Rightarrow> int" where
  "utc_plus_5 naive = 300"

definition weekday_digits :: "string \<Rightarrow> bool" where
  "weekday_digits x =
     list_all (\<lambda>p. p \<in> set [''0'', ''1'', ''2'', ''3'', ''4'', ''5'', ''6''])
       (split_str CHR '','' x)"

definition test_env :: env where
  "test_env = \<lparr>tz_utcoffset = utc_plus_5, cron_accepts = weekday_digits\<rparr>"

definition rem_weekly :: reminder where
  "rem_weekly = \<lparr>r_id = 1, r_thread_id = 1, r_text = ''report'', r_time = ''00:30'',
     r_days = ''0'', r_active = 1, r_needs_confirm = 0, r_specific_date = None,
     r_is_recurring = 1\<rparr>"

definition rem_off :: reminder where
  "rem_off = \<lparr>r_id = 2, r_thread_id = 1, r_text = ''lunch'', r_time = ''09:00'',
     r_days = ''all'', r_active = 0, r_needs_confirm = 0, r_specific_date = None,
     r_is_recurring = 1\<rparr>"

definition rem_past :: reminder where
  "rem_past = \<lparr>r_id = 3, r_thread_id = 1, r_text = ''party'', r_time = ''10:00'',
     r_days = [], r_active = 1, r_needs_confirm = 0, r_specific_date = Some ''2000-01-01'',
     r_is_recurring = 0\<rparr>"

definition rem_future :: reminder where
  "rem_future = \<lparr>r_id = 4, r_thread_id = 1, r_text = ''audit'', r_time = ''10:00'',
     r_days = [], r_active = 1, r_needs_confirm = 1, r_specific_date = Some ''2999-01-01'',
     r_is_recurring = 0\<rparr>"

definition bound_settings :: "string \<Rightarrow> string option" where
  "bound_settings = map_of [(''group_chat_id'', ''-1001''), (''time_offset_minutes'', ''120'')]"

definition unbound_settings :: "string \<Rightarrow> string option" where
  "unbound_settings = map_of [(''time_offset_minutes'', ''120'')]"

definition no_settings :: "string \<Rightarrow> string option" where
  "no_settings = map_of []"

definition example_db :: db where
  "example_db = \<lparr>reminders = [rem_weekly, rem_off, rem_past, rem_future],
                  settings = bound_settings\<rparr>"

definition unbound_db :: db where
  "unbound_db = \<lparr>reminders = [rem_weekly, rem_off, rem_past, rem_future],
                  settings = unbound_settings\<rparr>"

definition example_clock :: "int \<Rightarrow> int" where
  "example_clock rid = 63900000000000000"

definition weekly_args :: job_args where
  "weekly_args = \<lparr>a_chat_id = - 1001, a_thread_id = 1, a_text = ''report'', a_rid = 1,
                   a_needs_confirm = False, a_is_recurring = True\<rparr>"

definition once_args :: job_args where
  "once_args = \<lparr>a_chat_id = - 1001, a_thread_id = 1, a_text = ''report'', a_rid = 1,
                 a_needs_confirm = False, a_is_recurring = False\<rparr>"

definition weekly_job :: job where
  "weekly_job = \<lparr>jid = ''rem_1'', jtrigger = CronTrigger (Some ''6'') 22 30,
                  jfunc = SendReminderJob weekly_args\<rparr>"

definition stale_job :: job where
  "stale_job = \<lparr>jid = ''rem_99'', jtrigger = CronTrigger None 8 0,
                 jfunc = SendReminderJob (weekly_args\<lparr>a_rid := 99\<rparr>)\<rparr>"

definition future_job :: job where
  "future_job = \<lparr>jid = ''rem_4'', jtrigger = DateTrigger 94607751600000000,
                  jfunc = SendReminderJob
                    \<lparr>a_chat_id = - 1001, a_thread_id = 1, a_text = ''audit'', a_rid = 4,
                     a_needs_confirm = True, a_is_recurring = False\<rparr>\<rparr>"

definition daily_job :: job where
  "daily_job = \<lparr>jid = ''rem_1'', jtrigger = CronTrigger None 7 0,
                 jfunc = SendReminderJob weekly_args\<rparr>"

definition daily_scheduler :: scheduler where
  "daily_scheduler = \<lparr>jobs = [daily_job], running = True\<rparr>"

definition idle_scheduler :: scheduler where
  "idle_scheduler = \<lparr>jobs = [], running = True\<rparr>"

definition weekly_scheduler :: scheduler where
  "weekly_scheduler = \<lparr>jobs = [weekly_job], running = True\<rparr>"

definition stale_scheduler :: scheduler where
  "stale_scheduler = \<lparr>jobs = [stale_job], running = False\<rparr>"

definition weekly_db :: db where
  "weekly_db = \<lparr>reminders = [rem_weekly], settings = bound_settings\<rparr>"

definition plain_db :: db where
  "plain_db = \<lparr>reminders = [], settings = no_settings\<rparr>"

section \<open>The registry holds one job per identifier\<close>

lemma jobs_add_job_ids:
  "map jid (jobs (add_job j s)) =
     (if jid j \<in> set (map jid (jobs s)) then map jid (jobs s) else map jid (jobs s) @ [jid j])"
proof -
  have "map jid (map (\<lambda>k. if jid k = jid j then j else k) xs) = map jid xs" for xs
    by (induction xs) auto
  then show ?thesis by (simp add: add_job_def)
qed

lemma set_ids_add_job:
  "jid ` set (jobs (add_job j s)) = insert (jid j) (jid ` set (jobs s))"
  using arg_cong [OF jobs_add_job_ids [of j s], of set] by auto

lemma distinct_add_job:
  "distinct (map jid (jobs s)) \<Longrightarrow> distinct (map jid (jobs (add_job j s)))"
  by (simp add: jobs_add_job_ids)

lemma find_replaced:
  "i \<in> set (map jid xs) \<Longrightarrow> jid j = i \<Longrightarrow>
     find (\<lambda>k. jid k = i) (map (\<lambda>k. if jid k = i then j else k) xs) = Some j"
  by (induction xs) auto

lemma find_appended:
  "i \<notin> set (map jid xs) \<Longrightarrow> jid j = i \<Longrightarrow> find (\<lambda>k. jid k = i) (xs @ [j]) = Some j"
  by (induction xs) auto

lemma get_job_add_job: "get_job (add_job j s) (jid j) = Some j"
  using find_replaced [of "jid j" "jobs s" j] find_appended [of "jid j" "jobs s" j]
  by (simp add: get_job_def add_job_def)

lemma running_add_job: "running (add_job j s) = running s"
  by (simp add: add_job_def)

lemma jobs_try_remove_job:
  "jobs (try_remove_job i s) = filter (\<lambda>k. jid k \<noteq> i) (jobs s)"
proof (cases "i \<in> set (map jid (jobs s))")
  case True
  then show ?thesis by (simp add: try_remove_job_def remove_job_def)
next
  case False
  then have "filter (\<lambda>k. jid k \<noteq> i) (jobs s) = jobs s"
    by (auto simp: filter_id_conv)
  with False show ?thesis by (simp add: try_remove_job_def remove_job_def)
qed

lemma try_remove_job_twice: "try_remove_job i (try_remove_job i s) = try_remove_job i s"
proof -
  have "try_remove_job i t = t\<lparr>jobs := filter (\<lambda>k. jid k \<noteq> i) (jobs t)\<rparr>" for t
  proof (cases "i \<in> set (map jid (jobs t))")
    case True
    then show ?thesis by (simp add: try_remove_job_def remove_job_def)
  next
    case False
    then have "filter (\<lambda>k. jid k \<noteq> i) (jobs t) = jobs t"
      by (auto simp: filter_id_conv)
    with False show ?thesis by (simp add: try_remove_job_def remove_job_def)
  qed
  then show ?thesis by simp
qed

lemma get_job_try_remove_job: "get_job (try_remove_job i s) i = None"
  by (simp add: get_job_def jobs_try_remove_job find_None_iff)

lemma distinct_try_remove_job:
  "distinct (map jid (jobs s)) \<Longrightarrow> distinct (map jid (jobs (try_remove_job i s)))"
  by (simp add: jobs_try_remove_job distinct_map_filter)

lemma compile_job_jid:
  "compile_job e now d c t x rid tm dy nc sd rc = Inr (Some j) \<Longrightarrow> jid j = job_id rid"
  by (auto simp: compile_job_def Let_def split: option.splits sum.splits if_splits prod.splits)

lemma job_id_1: "job_id 1 = ''rem_1''"
  by (simp add: job_id_def py_str_def nat_digits.simps digit_char_def)

section \<open>Delivery outcomes\<close>

lemma toggle_ids:
  "map r_id (reminders (snd (toggle_reminder_status i d))) = map r_id (reminders d)"
proof -
  have "map r_id (map (\<lambda>r. if r_id r = i then r\<lparr>r_active := v\<rparr> else r) xs) = map r_id xs"
    for v xs
    by (induction xs) auto
  then show ?thesis
    by (simp add: toggle_reminder_status_def Let_def split: list.splits)
qed

text \<open>
  C5. After a successful send, a reminder whose callback is not recurring is deleted from
  the store and its job is removed from the registry; a recurring one leaves the store
  and the registry as they were. No other result of the send, and no send for a
  recurring reminder, removes a row from the store.
\<close>

theorem send_success_consumes_one_shot:
  "send_reminder_job Sent a (d, s) =
     (if a_is_recurring a then (d, s)
      else (delete_reminder (a_rid a) d, try_remove_job (job_id (a_rid a)) s))
   \<and> (\<not> a_is_recurring a \<longrightarrow>
        a_rid a \<notin> set (map r_id (reminders (fst (send_reminder_job Sent a (d, s)))))
        \<and> get_job (snd (send_reminder_job Sent a (d, s))) (job_id (a_rid a)) = None)
   \<and> (res \<noteq> Sent \<or> a_is_recurring a \<longrightarrow>
        map r_id (reminders (fst (send_reminder_job res a (d, s)))) = map r_id (reminders d))"
proof -
  have 1: "send_reminder_job Sent a (d, s) =
     (if a_is_recurring a then (d, s)
      else (delete_reminder (a_rid a) d, try_remove_job (job_id (a_rid a)) s))"
    by (simp add: send_reminder_job_def)
  have 2: "a_rid a \<notin> set (map r_id (reminders (delete_reminder (a_rid a) d)))"
    by (auto simp: delete_reminder_def)
  have 3: "map r_id (reminders (fst (send_reminder_job res a (d, s)))) = map r_id (reminders d)"
    if "res \<noteq> Sent \<or> a_is_recurring a"
    using that by (cases res) (simp_all add: send_reminder_job_def Let_def toggle_ids)
  show ?thesis
    using 2 3 by (simp add: 1 get_job_try_remove_job)
qed

text \<open>
  The one-shot callback of reminder 1 succeeds: the row and the job are gone; had the
  send been refused, the row would still be there.
\<close>

theorem send_success_consumes_one_shot_witness:
  "send_reminder_job Sent once_args (weekly_db, weekly_scheduler) =
     (delete_reminder 1 weekly_db, try_remove_job ''rem_1'' weekly_scheduler)
   \<and> 1 \<notin> set (map r_id (reminders (fst (send_reminder_job Sent once_args
                                            (weekly_db, weekly_scheduler)))))
   \<and> get_job (snd (send_reminder_job Sent once_args (weekly_db, weekly_scheduler))) ''rem_1''
       = None
   \<and> map r_id (reminders (fst (send_reminder_job Forbidden once_args
                                 (weekly_db, weekly_scheduler)))) = [1]"
proof -
  have a: "\<not> a_is_recurring once_args" "a_rid once_args = 1"
    by (simp_all add: once_args_def)
  have ids: "map r_id (reminders weekly_db) = [1]"
    by (simp add: weekly_db_def rem_weekly_def)
  show ?thesis
    using send_success_consumes_one_shot [of once_args weekly_db weekly_scheduler Forbidden] a ids
    by (auto simp: job_id_1)
qed

text \<open>
  C7. When the send fails because the bot was removed from the chat, or fails in any
  way that is not a bad request naming a missing thread or chat, the store and the
  registry are left as they were, whether the callback is recurring or not.
\<close>

theorem send_failure_keeps_state:
  assumes "res = Forbidden \<or> res = OtherError
           \<or> (\<exists>msg. res = BadRequest msg \<and> \<not> contains (lower msg) ''thread not found''
                     \<and> \<not> contains (lower msg) ''chat not found'')"
  shows "send_reminder_job res a (d, s) = (d, s)"
  using assms by (auto simp: send_reminder_job_def Let_def)

theorem send_failure_keeps_state_witness:
  "send_reminder_job Forbidden once_args (weekly_db, weekly_scheduler)
     = (weekly_db, weekly_scheduler)
   \<and> send_reminder_job OtherError weekly_args (weekly_db, weekly_scheduler)
     = (weekly_db, weekly_scheduler)"
  using send_failure_keeps_state [of Forbidden once_args weekly_db weekly_scheduler]
        send_failure_keeps_state [of OtherError weekly_args weekly_db weekly_scheduler]
  by simp

section \<open>Arming twice\<close>

lemma arm_cases:
  assumes "add_reminder_to_scheduler e now d c t x rid tm dy nc sd rc s = Inr s'"
  shows "s' = s \<or> (\<exists>j. jid j = job_id rid \<and> s' = add_job j s)"
proof (cases "compile_job e now d c t x rid tm dy nc sd rc")
  case (Inl err)
  with assms show ?thesis by (simp add: add_reminder_to_scheduler_def)
next
  case (Inr oj)
  show ?thesis
  proof (cases oj)
    case None
    with Inr assms show ?thesis by (simp add: add_reminder_to_scheduler_def)
  next
    case (Some j)
    with Inr have "jid j = job_id rid" by (simp add: compile_job_jid)
    with Inr Some assms show ?thesis by (auto simp: add_reminder_to_scheduler_def)
  qed
qed

lemma count_le_one_distinct:
  "distinct (map jid xs) \<Longrightarrow> length (filter (\<lambda>k. jid k = i) xs) \<le> 1"
proof (induction xs)
  case Nil
  then show ?case by simp
next
  case (Cons a xs)
  show ?case
  proof (cases "jid a = i")
    case True
    with Cons.prems have "i \<notin> jid ` set xs" by simp
    then have "filter (\<lambda>k. jid k = i) xs = []"
      by (auto simp: filter_empty_conv)
    with True show ?thesis by simp
  next
    case False
    with Cons show ?thesis by simp
  qed
qed

text \<open>
  C8. Arming a reminder whose identifier already has a job replaces that job: the
  identifiers of the registry stay pairwise distinct, so at most one job is held for the
  reminder; a second call for the same reminder leaves the list of identifiers as it was
  and the job it compiled is the one the registry then holds.
\<close>

theorem arm_twice_replaces:
  assumes "distinct (map jid (jobs s))"
      and "add_reminder_to_scheduler e now d c t x rid tm dy nc sd rc s = Inr s1"
      and "add_reminder_to_scheduler e' now' d' c' t' x' rid tm' dy' nc' sd' rc' s1 = Inr s2"
  shows "distinct (map jid (jobs s1)) \<and> distinct (map jid (jobs s2))
         \<and> length (filter (\<lambda>k. jid k = job_id rid) (jobs s2)) \<le> 1
         \<and> (job_id rid \<in> set (map jid (jobs s1)) \<longrightarrow> map jid (jobs s2) = map jid (jobs s1))
         \<and> (\<forall>j. compile_job e' now' d' c' t' x' rid tm' dy' nc' sd' rc' = Inr (Some j)
                \<longrightarrow> get_job s2 (job_id rid) = Some j)"
proof -
  have d1: "distinct (map jid (jobs s1))"
    using arm_cases [OF assms(2)] assms(1) distinct_add_job by auto
  have d2: "distinct (map jid (jobs s2))"
    using arm_cases [OF assms(3)] d1 distinct_add_job by auto
  have same: "map jid (jobs s2) = map jid (jobs s1)" if "job_id rid \<in> set (map jid (jobs s1))"
    using arm_cases [OF assms(3)] that by (auto simp: jobs_add_job_ids)
  have got: "get_job s2 (job_id rid) = Some j"
    if "compile_job e' now' d' c' t' x' rid tm' dy' nc' sd' rc' = Inr (Some j)" for j
    using that assms(3) get_job_add_job [of j s1] compile_job_jid [OF that]
    by (simp add: add_reminder_to_scheduler_def)
  show ?thesis
    using d1 d2 same got count_le_one_distinct [OF d2] by blast
qed

text \<open>
  Reminder 1 is armed for Monday 00:30 and then again for every day 09:00: the registry
  holds the second job only.
\<close>

theorem arm_twice_replaces_witness:
  "distinct (map jid (jobs idle_scheduler))
   \<and> add_reminder_to_scheduler test_env 0 weekly_db (- 1001) 1 ''report'' 1 ''00:30'' ''0''
        False None True idle_scheduler = Inr weekly_scheduler
   \<and> add_reminder_to_scheduler test_env 0 weekly_db (- 1001) 1 ''report'' 1 ''09:00'' ''all''
        False None True weekly_scheduler = Inr daily_scheduler
   \<and> distinct (map jid (jobs daily_scheduler))
   \<and> length (filter (\<lambda>k. jid k = ''rem_1'') (jobs daily_scheduler)) \<le> 1
   \<and> map jid (jobs daily_scheduler) = map jid (jobs weekly_scheduler)
   \<and> get_job daily_scheduler ''rem_1'' = Some daily_job"
proof -
  have h1: "distinct (map jid (jobs idle_scheduler))"
    by (simp add: idle_scheduler_def)
  have h2: "add_reminder_to_scheduler test_env 0 weekly_db (- 1001) 1 ''report'' 1 ''00:30'' ''0''
        False None True idle_scheduler = Inr weekly_scheduler"
    by code_simp
  have h3: "add_reminder_to_scheduler test_env 0 weekly_db (- 1001) 1 ''report'' 1 ''09:00'' ''all''
        False None True weekly_scheduler = Inr daily_scheduler"
    by code_simp
  have c: "compile_job test_env 0 weekly_db (- 1001) 1 ''report'' 1 ''09:00'' ''all''
        False None True = Inr (Some daily_job)"
    by code_simp
  have m: "job_id 1 \<in> set (map jid (jobs weekly_scheduler))"
    by (simp add: job_id_1 weekly_scheduler_def weekly_job_def)
  show ?thesis
    using arm_twice_replaces [OF h1 h2 h3] h1 h2 h3 c m by (auto simp: job_id_1)
qed

section \<open>Reloading the registry\<close>

lemma arm_row_cases:
  "add_reminder_to_scheduler e (clock (r_id r)) d cid (r_thread_id r) (r_text r) (r_id r)
      (r_time r) (r_days r) (r_needs_confirm r \<noteq> 0) (r_specific_date r) (r_is_recurring r \<noteq> 0) s =
   (case row_job e clock d cid r of
      Inl err \<Rightarrow> Inl err
    | Inr None \<Rightarrow> Inr s
    | Inr (Some j) \<Rightarrow> Inr (add_job j s))"
  by (simp add: add_reminder_to_scheduler_def row_job_def)

lemma row_job_jid: "row_job e clock d cid r = Inr (Some j) \<Longrightarrow> jid j = job_id (r_id r)"
  unfolding row_job_def by (rule compile_job_jid)

lemma armed_rows_Nil: "armed_rows e clock d cid [] = {}"
  by (simp add: armed_rows_def)

lemma armed_rows_Cons:
  "armed_rows e clock d cid (r # rs) =
     (if r_active r \<noteq> 0 \<and> row_job e clock d cid r \<noteq> Inr None
      then insert (r_id r) (armed_rows e clock d cid rs) else armed_rows e clock d cid rs)"
  by (auto simp: armed_rows_def)

lemma load_loop_ids:
  assumes "py_int chat_id = Inr cid"
      and "\<forall>r \<in> set rs. r_active r \<noteq> 0 \<longrightarrow> \<not> isl (row_job e clock d cid r)"
  shows "jid ` set (jobs (load_loop e clock d chat_id rs s)) =
           jid ` set (jobs s) \<union> job_id ` armed_rows e clock d cid rs"
  using assms(2)
proof (induction rs arbitrary: s)
  case Nil
  then show ?case by (simp add: armed_rows_Nil)
next
  case (Cons r rs)
  have IH: "jid ` set (jobs (load_loop e clock d chat_id rs s')) =
           jid ` set (jobs s') \<union> job_id ` armed_rows e clock d cid rs" for s'
    using Cons by simp
  show ?case
  proof (cases "r_active r \<noteq> 0")
    case False
    then show ?thesis using IH by (simp add: armed_rows_Cons)
  next
    case True
    with Cons.prems have "\<not> isl (row_job e clock d cid r)" by simp
    then obtain oj where oj: "row_job e clock d cid r = Inr oj"
      by (cases "row_job e clock d cid r") auto
    show ?thesis
    proof (cases oj)
      case None
      with oj True show ?thesis
        using IH by (simp add: arm_row_cases assms(1) armed_rows_Cons)
    next
      case (Some j)
      with oj have "jid j = job_id (r_id r)" by (simp add: row_job_jid)
      with oj Some True show ?thesis
        using IH by (simp add: arm_row_cases assms(1) armed_rows_Cons set_ids_add_job)
    qed
  qed
qed

text \<open>
  C1, as the code has it. When a group chat is bound (the setting \<^verbatim>\<open>group_chat_id\<close> is a
  non-empty string that reads as an integer) and no active reminder raises while it is
  compiled, the identifiers of the jobs in the registry after a reload are that of the
  maintenance job and those of the reminders that are active in the store and were not
  skipped, whatever the registry held before.
\<close>

theorem reload_scheduler_armed_ids:
  assumes "settings d ''group_chat_id'' = Some chat_id" and "chat_id \<noteq> []"
      and "py_int chat_id = Inr cid"
      and "\<forall>r \<in> set (reminders d). r_active r \<noteq> 0 \<longrightarrow> \<not> isl (row_job e clock d cid r)"
  shows "set (map jid (jobs (reload_scheduler e clock d s))) =
           insert ''weekly_maintenance''
             (job_id ` {r_id r | r. r \<in> set (reminders d) \<and> r_active r \<noteq> 0
                                   \<and> row_job e clock d cid r \<noteq> Inr None})"
proof -
  have "jobs (reload_scheduler e clock d s) =
          jobs (load_loop e clock d chat_id (reminders d)
                  (start_maintenance_jobs (remove_all_jobs s)))"
    using assms(1,2)
    by (simp add: reload_scheduler_def Let_def load_reminders_def get_setting_def
                  get_reminders_def)
  moreover have "jid ` set (jobs (start_maintenance_jobs (remove_all_jobs s))) =
                   {''weekly_maintenance''}"
    by (simp add: start_maintenance_jobs_def set_ids_add_job remove_all_jobs_def)
  ultimately show ?thesis
    using load_loop_ids [OF assms(3,4)] by (simp add: armed_rows_def)
qed

text \<open>
  The example store, reloaded over a registry that holds a stale job: the weekly
  reminder and the one-shot reminder of 2999 are armed, the disabled reminder and the
  one-shot reminder of 2000 are not, and the stale job is gone.
\<close>

theorem reload_scheduler_armed_ids_witness:
  "settings example_db ''group_chat_id'' = Some ''-1001''
   \<and> py_int ''-1001'' = Inr (- 1001)
   \<and> \<not> isl (row_job test_env example_clock example_db (- 1001) rem_weekly)
   \<and> \<not> isl (row_job test_env example_clock example_db (- 1001) rem_past)
   \<and> \<not> isl (row_job test_env example_clock example_db (- 1001) rem_future)
   \<and> set (map jid (jobs (reload_scheduler test_env example_clock example_db stale_scheduler)))
       = {''weekly_maintenance'', ''rem_1'', ''rem_4''}"
proof -
  have h1: "settings example_db ''group_chat_id'' = Some ''-1001''"
    by (simp add: example_db_def bound_settings_def)
  have h3: "py_int ''-1001'' = Inr (- 1001)"
    by code_simp
  have w: "row_job test_env example_clock example_db (- 1001) rem_weekly = Inr (Some weekly_job)"
    by code_simp
  have p: "row_job test_env example_clock example_db (- 1001) rem_past = Inr None"
    by code_simp
  have f: "isl (row_job test_env example_clock example_db (- 1001) rem_future) = False"
          "(row_job test_env example_clock example_db (- 1001) rem_future = Inr None) = False"
    by code_simp+
  have a: "r_active rem_weekly = 1" "r_active rem_off = 0" "r_active rem_past = 1"
          "r_active rem_future = 1"
    by (simp_all add: rem_weekly_def rem_off_def rem_past_def rem_future_def)
  have i: "job_id (r_id rem_weekly) = ''rem_1''" "job_id (r_id rem_future) = ''rem_4''"
    by code_simp+
  have rows: "reminders example_db = [rem_weekly, rem_off, rem_past, rem_future]"
    by (simp add: example_db_def)
  have h4: "\<forall>r \<in> set (reminders example_db).
              r_active r \<noteq> 0 \<longrightarrow> \<not> isl (row_job test_env example_clock example_db (- 1001) r)"
    by (simp add: rows a w p f)
  have s: "{r_id r | r. r \<in> set (reminders example_db) \<and> r_active r \<noteq> 0
                        \<and> row_job test_env example_clock example_db (- 1001) r \<noteq> Inr None}
           = {r_id rem_weekly, r_id rem_future}"
    by (auto simp: rows a w p f)
  have "set (map jid (jobs (reload_scheduler test_env example_clock example_db stale_scheduler)))
       = {''weekly_maintenance'', ''rem_1'', ''rem_4''}"
    using reload_scheduler_armed_ids [OF h1 _ h3 h4, of stale_scheduler]
    by (simp add: s i)
  then show ?thesis
    using h1 h3 w p f by simp
qed

text \<open>
  C1, as the specification states it, fails when no group chat is bound: the weekly
  reminder is active and compiles to a job, and the reload arms the maintenance job only.
\<close>

theorem reload_unbound_counterexample:
  "rem_weekly \<in> set (reminders unbound_db)
   \<and> r_active rem_weekly = 1
   \<and> row_job test_env example_clock unbound_db (- 1001) rem_weekly = Inr (Some weekly_job)
   \<and> map jid (jobs (reload_scheduler test_env example_clock unbound_db stale_scheduler))
       = [''weekly_maintenance'']"
proof -
  have "rem_weekly \<in> set (reminders unbound_db)"
    by (simp add: unbound_db_def)
  moreover have "r_active rem_weekly = 1"
    by (simp add: rem_weekly_def)
  moreover have "row_job test_env example_clock unbound_db (- 1001) rem_weekly
                   = Inr (Some weekly_job)"
    by code_simp
  moreover have "map jid (jobs (reload_scheduler test_env example_clock unbound_db stale_scheduler))
       = [''weekly_maintenance'']"
    by code_simp
  ultimately show ?thesis by simp
qed

section \<open>One-shot reminders\<close>

text \<open>
  C4, as the code has it. For a reminder with a date whose date and time parse and whose
  physical instant (the logical date and time minus the offset) is a representable
  date-time, the compiler skips the reminder exactly when that instant is strictly
  earlier than the current physical time. A skipped reminder leaves the registry as it
  was; any other is armed under its identifier with a date trigger at that instant.
\<close>

theorem one_shot_skipped_iff_past:
  assumes "specific_date = Some date_str" and "date_str \<noteq> []"
      and "strptime (date_str @ '' '' @ time_str) = Inr bot_fire_time"
      and "minus_minutes bot_fire_time (get_time_offset_minutes d) = Inr naive"
  shows "naive = bot_fire_time - get_time_offset_minutes d
       \<and> (compile_job e now d c t x rid time_str dy nc specific_date rc = Inr None
            \<longleftrightarrow> localize e naive < now)
       \<and> (localize e naive < now \<longrightarrow>
            add_reminder_to_scheduler e now d c t x rid time_str dy nc specific_date rc s = Inr s)
       \<and> (\<not> localize e naive < now \<longrightarrow>
            (\<exists>s'. add_reminder_to_scheduler e now d c t x rid time_str dy nc specific_date rc s = Inr s'
                  \<and> get_job s' (job_id rid) =
                      Some \<lparr>jid = job_id rid, jtrigger = DateTrigger (localize e naive),
                            jfunc = SendReminderJob
                              \<lparr>a_chat_id = c, a_thread_id = t, a_text = x, a_rid = rid,
                               a_needs_confirm = nc, a_is_recurring = False\<rparr>\<rparr>))"
proof -
  let ?j = "\<lparr>jid = job_id rid, jtrigger = DateTrigger (localize e naive),
             jfunc = SendReminderJob
               \<lparr>a_chat_id = c, a_thread_id = t, a_text = x, a_rid = rid,
                a_needs_confirm = nc, a_is_recurring = False\<rparr>\<rparr>"
  have tr: "truthy specific_date = Some date_str"
    using assms(1,2) by (simp add: truthy_def)
  have cj: "compile_job e now d c t x rid time_str dy nc specific_date rc =
          (if localize e naive < now then Inr None else Inr (Some ?j))"
    using assms(3,4) by (simp add: compile_job_def tr Let_def)
  have n: "naive = bot_fire_time - get_time_offset_minutes d"
    using assms(4) by (auto simp: minus_minutes_def split: if_splits)
  have "get_job (add_job ?j s) (job_id rid) = Some ?j"
    using get_job_add_job [of ?j s] by simp
  then show ?thesis
    using n by (simp add: cj add_reminder_to_scheduler_def)
qed

text \<open>
  The one-shot reminder of 2000-01-01 10:00 with an offset of 120 minutes, compiled in
  2025: its instant is 08:00 local time, five hours ahead of universal time, and it is
  skipped.
\<close>

theorem one_shot_skipped_iff_past_witness:
  "strptime (''2000-01-01'' @ '' '' @ ''10:00'') = Inr 1051371960
   \<and> minus_minutes 1051371960 (get_time_offset_minutes example_db) = Inr 1051371840
   \<and> localize test_env 1051371840 < 63900000000000000
   \<and> compile_job test_env 63900000000000000 example_db (- 1001) 1 ''party'' 3 ''10:00'' []
        False (Some ''2000-01-01'') False = Inr None
   \<and> add_reminder_to_scheduler test_env 63900000000000000 example_db (- 1001) 1 ''party'' 3
        ''10:00'' [] False (Some ''2000-01-01'') False weekly_scheduler = Inr weekly_scheduler"
proof -
  have h3: "strptime (''2000-01-01'' @ '' '' @ ''10:00'') = Inr 1051371960"
    by code_simp
  have h4: "minus_minutes 1051371960 (get_time_offset_minutes example_db) = Inr 1051371840"
    by code_simp
  have l: "localize test_env 1051371840 < 63900000000000000"
    by code_simp
  show ?thesis
    using one_shot_skipped_iff_past [OF refl _ h3 h4, of test_env 63900000000000000
            "- 1001" 1 "''party''" 3 "[]" False False weekly_scheduler] h3 h4 l
    by simp
qed

text \<open>
  C4, as the specification states it, fails when the physical instant is the current
  physical time: the instant is not strictly in the future, and the reminder is armed.
\<close>

theorem one_shot_now_counterexample:
  "strptime ''2030-01-01 10:00'' = Inr 1067151480
   \<and> minus_minutes 1067151480 (get_time_offset_minutes plain_db) = Inr 1067151480
   \<and> localize test_env 1067151480 = 64029070800000000
   \<and> \<not> 64029070800000000 < localize test_env 1067151480
   \<and> compile_job test_env 64029070800000000 plain_db 1 1 ''t'' 5 ''10:00'' [] False
        (Some ''2030-01-01'') False
       = Inr (Some \<lparr>jid = ''rem_5'', jtrigger = DateTrigger 64029070800000000,
                     jfunc = SendReminderJob
                       \<lparr>a_chat_id = 1, a_thread_id = 1, a_text = ''t'', a_rid = 5,
                        a_needs_confirm = False, a_is_recurring = False\<rparr>\<rparr>)"
  by code_simp

text \<open>
  C10. When a reminder is armed with a date, the callback is bound with the recurring
  flag false whatever flag the call was given, so a successful send of that job deletes
  the reminder from the store and removes its job. A date of the store is the text
  \<^verbatim>\<open>strftime("%Y-%m-%d")\<close> wrote when the reminder was created, which is never empty, or
  it is absent.
\<close>

theorem date_job_bound_not_recurring:
  assumes "specific_date = Some date_str" and "date_str \<noteq> []"
      and "compile_job e now d c t x rid tm dy nc specific_date rc = Inr (Some j)"
  shows "add_reminder_to_scheduler e now d c t x rid tm dy nc specific_date rc s = Inr (add_job j s)
       \<and> get_job (add_job j s) (job_id rid) = Some j
       \<and> (\<exists>a. jfunc j = SendReminderJob a \<and> a_rid a = rid \<and> \<not> a_is_recurring a)
       \<and> fire Sent j (d', s') = (delete_reminder rid d', try_remove_job (job_id rid) s')
       \<and> rid \<notin> set (map r_id (reminders (fst (fire Sent j (d', s')))))
       \<and> get_job (snd (fire Sent j (d', s'))) (job_id rid) = None"
proof -
  have tr: "truthy specific_date = Some date_str"
    using assms(1,2) by (simp add: truthy_def)
  obtain ft where j: "j = \<lparr>jid = job_id rid, jtrigger = DateTrigger ft,
             jfunc = SendReminderJob
               \<lparr>a_chat_id = c, a_thread_id = t, a_text = x, a_rid = rid,
                a_needs_confirm = nc, a_is_recurring = False\<rparr>\<rparr>"
    using assms(3) by (auto simp: compile_job_def tr Let_def split: sum.splits if_splits)
  have f: "fire Sent j (d', s') = (delete_reminder rid d', try_remove_job (job_id rid) s')"
    by (simp add: j fire_def drop_if_done_def send_reminder_job_def try_remove_job_twice)
  have g: "get_job (add_job j s) (job_id rid) = Some j"
    using get_job_add_job [of j s] by (simp add: j)
  have r: "rid \<notin> set (map r_id (reminders (delete_reminder rid d')))"
    by (auto simp: delete_reminder_def)
  show ?thesis
    using assms(3) g r
    by (simp add: f add_reminder_to_scheduler_def get_job_try_remove_job) (simp add: j)
qed

text \<open>
  The reminder of 2999-01-01 is armed as a recurring one: the job is bound as not
  recurring, and a successful send empties the store and the registry of it.
\<close>

theorem date_job_bound_not_recurring_witness:
  "compile_job test_env 63900000000000000 example_db (- 1001) 1 ''audit'' 4 ''10:00'' [] True
     (Some ''2999-01-01'') True = Inr (Some future_job)
   \<and> add_reminder_to_scheduler test_env 63900000000000000 example_db (- 1001) 1 ''audit'' 4
        ''10:00'' [] True (Some ''2999-01-01'') True idle_scheduler
       = Inr (add_job future_job idle_scheduler)
   \<and> fire Sent future_job (example_db, add_job future_job idle_scheduler)
       = (delete_reminder 4 example_db,
          try_remove_job (job_id 4) (add_job future_job idle_scheduler))
   \<and> 4 \<notin> set (map r_id (reminders (fst (fire Sent future_job
                        (example_db, add_job future_job idle_scheduler)))))
   \<and> get_job (snd (fire Sent future_job (example_db, add_job future_job idle_scheduler)))
        (job_id 4) = None"
proof -
  have h3: "compile_job test_env 63900000000000000 example_db (- 1001) 1 ''audit'' 4 ''10:00''
     [] True (Some ''2999-01-01'') True = Inr (Some future_job)"
    by code_simp
  show ?thesis
    using date_job_bound_not_recurring [OF refl _ h3, of idle_scheduler example_db
            "add_job future_job idle_scheduler"] h3
    by auto
qed

section \<open>Weekly reminders and the day shift\<close>

lemma digit_cases:
  assumes "d < (10::nat)"
  shows "d = 0 \<or> d = 1 \<or> d = 2 \<or> d = 3 \<or> d = 4 \<or> d = 5 \<or> d = 6 \<or> d = 7 \<or> d = 8 \<or> d = 9"
  using assms by presburger

lemma digit_char_facts:
  assumes "d < 10"
  shows "digit_val (digit_char d) = Some d" and "digit_char d \<noteq> CHR '',''"
    and "\<not> is_space (digit_char d)" and "digit_char d \<noteq> CHR ''-''"
    and "digit_char d \<noteq> CHR ''+''" and "digit_char d \<noteq> CHR ''a''"
    and "\<not> is_int_space (digit_char d)"
  using digit_cases [OF assms]
  by (auto simp: digit_char_def digit_val_def is_space_def is_int_space_def)

lemma py_str_digit: "d < 10 \<Longrightarrow> py_str (int d) = [digit_char d]"
  by (simp add: py_str_def nat_digits.simps)

lemma py_int_digit: "d < 10 \<Longrightarrow> py_int [digit_char d] = Inr (int d)"
  by (simp add: py_int_def decimal_def digit_char_facts)

lemma strip_digit: "d < 10 \<Longrightarrow> strip [digit_char d] = [digit_char d]"
  by (simp add: strip_def digit_char_facts)

lemma join_str_Cons:
  "join_str sep (x # xs) = x @ (if xs = [] then [] else sep @ join_str sep xs)"
  by (cases xs) simp_all

lemma split_join_digits:
  assumes "\<forall>d \<in> set ds. d < 10" and "ds \<noteq> []"
  shows "split_str CHR '','' (join_str '','' (map (\<lambda>d. [digit_char d]) ds)) =
           map (\<lambda>d. [digit_char d]) ds"
  using assms
proof (induction ds)
  case Nil
  then show ?case by simp
next
  case (Cons d ds)
  then have d: "digit_char d \<noteq> CHR '',''" by (simp add: digit_char_facts)
  show ?case
  proof (cases ds)
    case Nil
    with d show ?thesis by simp
  next
    case (Cons d' ds')
    with Cons.IH Cons.prems
    have "split_str CHR '','' (join_str '','' (map (\<lambda>d. [digit_char d]) ds)) =
            map (\<lambda>d. [digit_char d]) ds" by simp
    with d Cons show ?thesis by simp
  qed
qed

lemma shift_days_digits:
  assumes "\<forall>d \<in> set ds. d < 7"
  shows "shift_days (join_str '','' (map (\<lambda>d. py_str (int d)) ds)) shift =
           join_str '','' (map (\<lambda>d. py_str ((int d + shift) mod 7)) ds)"
proof -
  let ?s = "join_str '','' (map (\<lambda>d. [digit_char d]) ds)"
  from assms have lt: "\<forall>d \<in> set ds. d < 10" by auto
  then have eq: "map (\<lambda>d. py_str (int d)) ds = map (\<lambda>d. [digit_char d]) ds"
    by (simp add: py_str_digit)
  have notall: "?s \<noteq> ''all''"
  proof (cases ds)
    case Nil
    then show ?thesis by simp
  next
    case (Cons d ds')
    with lt have "digit_char d \<noteq> CHR ''a''" by (simp add: digit_char_facts)
    with Cons show ?thesis by (simp add: join_str_Cons)
  qed
  show ?thesis
  proof (cases "shift = 0")
    case True
    have m: "map (\<lambda>d. py_str ((int d + shift) mod 7)) ds = map (\<lambda>d. py_str (int d)) ds"
      by (rule map_cong) (use assms True in auto)
    show ?thesis unfolding m by (simp add: shift_days_def True)
  next
    case False
    show ?thesis
    proof (cases "ds = []")
      case True
      with False show ?thesis by (simp add: shift_days_def strip_def)
    next
      case ne: False
      have parts: "filter (\<lambda>p. p \<noteq> []) (map strip (split_str CHR '','' ?s)) =
                     map (\<lambda>d. [digit_char d]) ds"
        using lt by (simp add: split_join_digits [OF lt ne] strip_digit filter_id_conv comp_def)
      have days: "concat (map (\<lambda>x. case py_int [digit_char x] of Inl e \<Rightarrow> [] | Inr d \<Rightarrow> [d]) ds)
                    = map int ds"
        using lt by (induction ds) (simp_all add: py_int_digit)
      have some: "\<exists>x \<in> set ds. py_int [digit_char x] = Inr (int x)"
        using lt ne by (cases ds) (auto simp: py_int_digit)
      show ?thesis
        using False ne notall some
        by (auto simp: shift_days_def eq parts days Let_def comp_def)
    qed
  qed
qed

lemma convert_midnight: "convert_bot_time_to_server ''00:30'' 120 = Inr (22, 30, - 1)"
  by code_simp

lemma convert_late: "convert_bot_time_to_server ''23:30'' (- 120) = Inr (1, 30, 1)"
  by code_simp

text \<open>
  C2. With logical time 00:30 and an offset of +120 minutes the physical time is 22:30
  and the day shift is -1, which turns Monday (0) into Sunday (6); with logical time
  23:30 and an offset of -120 minutes the physical time is 01:30 and the day shift is
  +1, which turns Monday into Tuesday (1). In general, for a comma-joined list of
  weekday digits, every weekday of the list is shifted modulo 7.
\<close>

theorem weekly_day_shift:
  "convert_bot_time_to_server ''00:30'' 120 = Inr (22, 30, - 1)
   \<and> shift_days ''0'' (- 1) = ''6''
   \<and> convert_bot_time_to_server ''23:30'' (- 120) = Inr (1, 30, 1)
   \<and> shift_days ''0'' 1 = ''1''
   \<and> ((\<forall>d \<in> set ds. d < 7) \<longrightarrow>
        shift_days (join_str '','' (map (\<lambda>d. py_str (int d)) ds)) shift =
          join_str '','' (map (\<lambda>d. py_str ((int d + shift) mod 7)) ds))"
proof -
  have "shift_days ''0'' (- 1) = ''6''" and "shift_days ''0'' 1 = ''1''"
    by code_simp+
  then show ?thesis
    using convert_midnight convert_late shift_days_digits [of ds shift] by simp
qed

text \<open>
  Monday, Wednesday and Sunday, shifted by one day back, are Sunday, Tuesday and
  Saturday, and the weekly reminder of the example store is armed for Sunday 22:30.
\<close>

theorem weekly_day_shift_witness:
  "shift_days ''0,2,6'' (- 1) = ''6,1,5''
   \<and> compile_job test_env 0 weekly_db (- 1001) 1 ''report'' 1 ''00:30'' ''0'' False None True
       = Inr (Some weekly_job)"
proof -
  have j: "join_str '','' (map (\<lambda>d. py_str (int d)) [0, 2, 6]) = ''0,2,6''"
    by (simp add: py_str_def nat_digits.simps digit_char_def)
  have k: "join_str '','' (map (\<lambda>d. py_str ((int d + (- 1)) mod 7)) [0, 2, 6]) = ''6,1,5''"
    by (simp add: py_str_def nat_digits.simps digit_char_def)
  have c: "compile_job test_env 0 weekly_db (- 1001) 1 ''report'' 1 ''00:30'' ''0'' False None
             True = Inr (Some weekly_job)"
    by code_simp
  have "shift_days ''0,2,6'' (- 1) = ''6,1,5''"
    using weekly_day_shift [of "[0, 2, 6]" "- 1"] by (simp only: j k) simp
  with c show ?thesis by simp
qed

lemma py_int_two_digits:
  assumes "a < 10" and "b < 10"
  shows "py_int [digit_char a, digit_char b] = Inr (int (10 * a + b))"
  using assms by (simp add: py_int_def decimal_def digit_char_facts)

lemma digit_char_not_colon: "d < 10 \<Longrightarrow> digit_char d \<noteq> CHR '':''"
  using digit_cases [of d] by (auto simp: digit_char_def)

lemma split_clock:
  assumes "a < 10" "b < 10" "c < 10" "e < 10"
  shows "split_str CHR '':'' [digit_char a, digit_char b, CHR '':'', digit_char c, digit_char e]
           = [[digit_char a, digit_char b], [digit_char c, digit_char e]]"
  using assms by (simp add: digit_char_not_colon)

lemma datetime_base:
  assumes "0 \<le> h" "h \<le> 23" "0 \<le> m" "m \<le> 59"
  shows "datetime 2000 1 3 h m = Inr (1051374240 + h * 60 + m)"
  using assms
  by (simp add: datetime_def days_in_month_def ymd2ord_def days_before_year_def
                days_before_month_def is_leap_def)

lemma convert_total:
  assumes "a < 10" "b < 10" "c < 10" "e < 10" "10 * a + b \<le> 23" "10 * c + e \<le> 59"
      and "- 1000000000 \<le> off" "off \<le> 1000000000"
  shows "\<not> isl (convert_bot_time_to_server
                  [digit_char a, digit_char b, CHR '':'', digit_char c, digit_char e] off)"
proof -
  let ?h = "int (10 * a + b)" and ?m = "int (10 * c + e)"
  have d: "datetime 2000 1 3 ?h ?m = Inr (1051374240 + ?h * 60 + ?m)"
    using assms(5,6) by (intro datetime_base) auto
  have "0 \<le> 1051374240 + ?h * 60 + ?m - off"
    using assms(8) by linarith
  moreover have "1051374240 + ?h * 60 + ?m - off < MAXORDINAL * 1440"
    using assms(5,6,7) by (simp add: MAXORDINAL_def)
  ultimately have m: "minus_minutes (1051374240 + ?h * 60 + ?m) off
                        = Inr (1051374240 + ?h * 60 + ?m - off)"
    by (simp add: minus_minutes_def)
  have s: "map py_int (split_str CHR '':''
                        [digit_char a, digit_char b, CHR '':'', digit_char c, digit_char e])
             = [Inr ?h, Inr ?m]"
    unfolding split_clock [OF assms(1-4)]
    using py_int_two_digits [OF assms(1,2)] py_int_two_digits [OF assms(3,4)] by simp
  show ?thesis
    unfolding convert_bot_time_to_server_def s using d m by simp
qed

text \<open>
  C3. The weekday string \<^verbatim>\<open>"all"\<close> is returned unchanged by every day shift, and a weekly
  reminder with that string is armed with a cron trigger that has no day-of-week
  argument, whatever the time of day and the offset are: whenever the time converts,
  and so for every time \<^verbatim>\<open>HH:MM\<close> of the day with an offset of at most 1000000000 minutes
  either way.
\<close>

theorem all_days_sentinel_kept:
  "shift_days ''all'' shift = ''all''
   \<and> (truthy specific_date = None
        \<and> convert_bot_time_to_server time_str (get_time_offset_minutes d) = Inr (hour, minute, shift')
      \<longrightarrow> compile_job e now d c t x rid time_str ''all'' nc specific_date rc =
            Inr (Some \<lparr>jid = job_id rid, jtrigger = CronTrigger None hour minute,
                       jfunc = SendReminderJob
                         \<lparr>a_chat_id = c, a_thread_id = t, a_text = x, a_rid = rid,
                          a_needs_confirm = nc, a_is_recurring = rc\<rparr>\<rparr>))
   \<and> (truthy specific_date = None
        \<and> compile_job e now d c t x rid time_str ''all'' nc specific_date rc = Inr (Some j)
      \<longrightarrow> (\<exists>h m. jtrigger j = CronTrigger None h m))
   \<and> (truthy specific_date = None
        \<and> h1 < 10 \<and> h0 < 10 \<and> m1 < 10 \<and> m0 < 10 \<and> 10 * h1 + h0 \<le> 23 \<and> 10 * m1 + m0 \<le> 59
        \<and> - 1000000000 \<le> get_time_offset_minutes d \<and> get_time_offset_minutes d \<le> 1000000000
      \<longrightarrow> (\<exists>h m. compile_job e now d c t x rid
                    [digit_char h1, digit_char h0, CHR '':'', digit_char m1, digit_char m0]
                    ''all'' nc specific_date rc =
            Inr (Some \<lparr>jid = job_id rid, jtrigger = CronTrigger None h m,
                       jfunc = SendReminderJob
                         \<lparr>a_chat_id = c, a_thread_id = t, a_text = x, a_rid = rid,
                          a_needs_confirm = nc, a_is_recurring = rc\<rparr>\<rparr>)))"
proof -
  have 1: "shift_days ''all'' k = ''all''" for k
    by (simp add: shift_days_def)
  have 2: "compile_job e now d c t x rid tm ''all'' nc specific_date rc =
            Inr (Some \<lparr>jid = job_id rid, jtrigger = CronTrigger None h m,
                       jfunc = SendReminderJob
                         \<lparr>a_chat_id = c, a_thread_id = t, a_text = x, a_rid = rid,
                          a_needs_confirm = nc, a_is_recurring = rc\<rparr>\<rparr>)"
    if "truthy specific_date = None"
      and "convert_bot_time_to_server tm (get_time_offset_minutes d) = Inr (h, m, k)"
    for tm h m k
    using that by (simp add: 1 compile_job_def Let_def)
  have 3: "\<exists>h m. jtrigger j = CronTrigger None h m"
    if "truthy specific_date = None"
      and "compile_job e now d c t x rid time_str ''all'' nc specific_date rc = Inr (Some j)"
    using that by (auto simp: 1 compile_job_def Let_def split: sum.splits prod.splits)
  have 4: "\<exists>h m. compile_job e now d c t x rid
                    [digit_char h1, digit_char h0, CHR '':'', digit_char m1, digit_char m0]
                    ''all'' nc specific_date rc =
            Inr (Some \<lparr>jid = job_id rid, jtrigger = CronTrigger None h m,
                       jfunc = SendReminderJob
                         \<lparr>a_chat_id = c, a_thread_id = t, a_text = x, a_rid = rid,
                          a_needs_confirm = nc, a_is_recurring = rc\<rparr>\<rparr>)"
    if tr: "truthy specific_date = None"
      and dg: "h1 < 10" "h0 < 10" "m1 < 10" "m0 < 10" "10 * h1 + h0 \<le> 23" "10 * m1 + m0 \<le> 59"
      and off: "- 1000000000 \<le> get_time_offset_minutes d"
               "get_time_offset_minutes d \<le> 1000000000"
  proof -
    let ?tm = "[digit_char h1, digit_char h0, CHR '':'', digit_char m1, digit_char m0]"
    from convert_total [OF dg off]
    obtain r where "convert_bot_time_to_server ?tm (get_time_offset_minutes d) = Inr r"
      by (cases "convert_bot_time_to_server ?tm (get_time_offset_minutes d)") auto
    then obtain h m k
      where "convert_bot_time_to_server ?tm (get_time_offset_minutes d) = Inr (h, m, k)"
      by (cases r) auto
    from 2 [OF tr this] show ?thesis by blast
  qed
  show ?thesis
    using 1 2 3 4 by blast
qed

text \<open>
  Every day at 00:30 with an offset of 120 minutes: the physical time is 22:30 of the
  day before, and the trigger still has no day of the week.
\<close>

theorem all_days_sentinel_kept_witness:
  "shift_days ''all'' (- 1) = ''all''
   \<and> truthy None = None
   \<and> convert_bot_time_to_server ''00:30'' (get_time_offset_minutes weekly_db) = Inr (22, 30, - 1)
   \<and> compile_job test_env 0 weekly_db (- 1001) 1 ''report'' 1 ''00:30'' ''all'' False None True
       = Inr (Some \<lparr>jid = job_id 1, jtrigger = CronTrigger None 22 30,
                     jfunc = SendReminderJob
                       \<lparr>a_chat_id = - 1001, a_thread_id = 1, a_text = ''report'', a_rid = 1,
                        a_needs_confirm = False, a_is_recurring = True\<rparr>\<rparr>)"
proof -
  have t: "truthy None = None"
    by (simp add: truthy_def)
  have o: "get_time_offset_minutes weekly_db = 120"
    by code_simp
  have c: "convert_bot_time_to_server ''00:30'' (get_time_offset_minutes weekly_db)
             = Inr (22, 30, - 1)"
    using o convert_midnight by simp
  show ?thesis
    using all_days_sentinel_kept [where shift = "- 1" and specific_date = None
            and time_str = "''00:30''" and d = weekly_db and hour = 22 and minute = 30
            and shift' = "- 1" and e = test_env and now = 0 and c = "- 1001" and t = 1
            and x = "''report''" and rid = 1 and nc = False and rc = True] t c
    by simp
qed

section \<open>Where the code departs from the specification\<close>

text \<open>
  C6 at a failing input. The weekly reminder 1 is active and armed; the operator turns
  it off, which leaves its job armed; the job fires and the send fails with
  \<^verbatim>\<open>thread not found\<close>. The job is removed, and the row, which was inactive, is active
  again: the code toggles the flag where its log message says it disables the reminder.
\<close>

theorem invalid_target_toggles_active:
  "map r_active (reminders (fst (tog_rem_h 1 (weekly_db, weekly_scheduler)))) = [0]
   \<and> get_job (snd (tog_rem_h 1 (weekly_db, weekly_scheduler))) ''rem_1'' = Some weekly_job
   \<and> map r_active (reminders (fst (fire
         (BadRequest ''Telegram server says - Bad Request: message thread not found'')
         weekly_job (tog_rem_h 1 (weekly_db, weekly_scheduler))))) = [1]
   \<and> jobs (snd (fire
         (BadRequest ''Telegram server says - Bad Request: message thread not found'')
         weekly_job (tog_rem_h 1 (weekly_db, weekly_scheduler)))) = []"
  by code_simp

text \<open>
  C9 at a failing input. The toggle handler never touches the registry. Turning the
  armed weekly reminder 1 off leaves its job armed; turning the disabled reminder 2 on
  arms no job for it, although its schedule compiles.
\<close>

theorem toggle_leaves_registry:
  "snd (tog_rem_h rid (d, s)) = s
   \<and> map r_active (reminders (fst (tog_rem_h 1 (weekly_db, weekly_scheduler)))) = [0]
   \<and> get_job (snd (tog_rem_h 1 (weekly_db, weekly_scheduler))) ''rem_1'' = Some weekly_job
   \<and> map r_active (reminders (fst (tog_rem_h 2 (example_db, idle_scheduler)))) = [1, 1, 1, 1]
   \<and> get_job (snd (tog_rem_h 2 (example_db, idle_scheduler))) ''rem_2'' = None
   \<and> \<not> isl (row_job test_env example_clock example_db (- 1001) (rem_off\<lparr>r_active := 1\<rparr>))
   \<and> row_job test_env example_clock example_db (- 1001) (rem_off\<lparr>r_active := 1\<rparr>) \<noteq> Inr None"
proof -
  have "snd (tog_rem_h rid (d, s)) = s"
    by (simp add: tog_rem_h_def)
  moreover have
    "map r_active (reminders (fst (tog_rem_h 1 (weekly_db, weekly_scheduler)))) = [0]
     \<and> get_job (snd (tog_rem_h 1 (weekly_db, weekly_scheduler))) ''rem_1'' = Some weekly_job
     \<and> map r_active (reminders (fst (tog_rem_h 2 (example_db, idle_scheduler)))) = [1, 1, 1, 1]
     \<and> get_job (snd (tog_rem_h 2 (example_db, idle_scheduler))) ''rem_2'' = None
     \<and> \<not> isl (row_job test_env example_clock example_db (- 1001) (rem_off\<lparr>r_active := 1\<rparr>))
     \<and> row_job test_env example_clock example_db (- 1001) (rem_off\<lparr>r_active := 1\<rparr>) \<noteq> Inr None"
    by code_simp
  ultimately show ?thesis by simp
qed

end
